theory Spec2Isabelle
  imports Main "HOL-Library.Char_ord" "HOL-Library.List_Lexorder"
begin

section \<open>JavaScript values and errors\<close>

datatype js_error = NetworkError | TypeError | SyntaxError

text \<open>
  Every method of an IndexedDB object store (\<open>add\<close>, \<open>delete\<close>, \<open>get\<close>, \<open>getAll\<close>,
  \<open>clear\<close>) returns at once an \<open>IDBRequest\<close> object. The request is carried out
  afterwards, and its result is in the object only from its success event on. A value
  the storage class holds is therefore either an ordinary value or a request object;
  \<open>IDBRequest r\<close> is the request whose result will be \<open>r\<close>.
\<close>

datatype 'a js_value = Value 'a | IDBRequest 'a

text \<open>\<open>await v\<close> for a \<open>v\<close> that is not a promise (a request object has no \<open>then\<close>)
  gives \<open>v\<close> itself: it throws nothing and does not wait for the request.\<close>

definition js_await :: "'a js_value \<Rightarrow> 'a js_value" where
  "js_await v = v"

text \<open>\<open>xs.map(f)\<close> and \<open>xs.forEach(f)\<close>: a request object has neither method, so the
  call throws a type error.\<close>

fun array_map :: "('a \<Rightarrow> 'b) \<Rightarrow> 'a list js_value \<Rightarrow> js_error + 'b list" where
  "array_map f (Value xs) = Inr (map f xs)"
| "array_map f (IDBRequest r) = Inl TypeError"

fun array_forEach :: "('a \<Rightarrow> 's \<Rightarrow> 's) \<Rightarrow> 'a list js_value \<Rightarrow> 's \<Rightarrow> js_error + 's" where
  "array_forEach f (Value xs) acc = Inr (fold f xs acc)"
| "array_forEach f (IDBRequest r) acc = Inl TypeError"

text \<open>\<open>!!v\<close> for the result of a \<open>get\<close>: \<open>undefined\<close> is falsy, every object is
  truthy, a request object too.\<close>

fun not_not :: "'a option js_value \<Rightarrow> bool" where
  "not_not (Value v) = (v \<noteq> None)"
| "not_not (IDBRequest r) = True"

section \<open>Local persistence store (js/storage.js)\<close>

text \<open>
  \<open>QNEETStorage\<close> keeps five object stores: \<open>resources\<close>, \<open>favorites\<close>, \<open>notes\<close> and
  \<open>downloads\<close> with key path \<open>id\<close>, and \<open>settings\<close> with key path \<open>key\<close>. An object
  store holds at most one record per key, in ascending key order, so a store is the
  list of its records in key order.

  The requests of a transaction are carried out in the order they were made, and
  before the requests of every transaction opened later on the same store. A request
  that fails (an \<open>add\<close> whose key is in the store) aborts its transaction when nothing
  handles its error event, as here, and every write of the transaction is undone. The
  class awaits the request objects themselves, so no method of the class sees a failed
  request as an exception. The state below is the content of the stores once the
  requests made so far have been carried out.
\<close>

datatype idb_error = ConstraintError

record resource =
  res_id :: int
  res_category :: string
  res_subject :: string
  res_title :: string
  res_description :: string

record favorite =
  fav_id :: int
  fav_date :: string

record note_record =
  note_id :: int
  note_resourceId :: int
  note_content :: string
  note_date :: string

record download =
  dl_id :: int
  dl_resourceId :: int
  dl_title :: string
  dl_progress :: nat

record setting =
  set_key :: string
  set_value :: string

subsection \<open>One object store\<close>

text \<open>How an \<open>add\<close> request is carried out: it fails with a constraint error when a
  record with the key of \<open>v\<close> exists; otherwise \<open>v\<close> is inserted at its key.\<close>

definition store_add :: "('v \<Rightarrow> 'k::linorder) \<Rightarrow> 'v \<Rightarrow> 'v list \<Rightarrow> idb_error + 'v list" where
  "store_add key v st =
     (if list_ex (\<lambda>x. key x = key v) st then Inl ConstraintError
      else Inr (insort_key key v st))"

text \<open>The \<open>add\<close> requests of one transaction, carried out in order up to the first
  that fails.\<close>

fun add_each :: "('v \<Rightarrow> 'k::linorder) \<Rightarrow> 'v list \<Rightarrow> 'v list \<Rightarrow> idb_error option \<times> 'v list" where
  "add_each key [] st = (None, st)"
| "add_each key (v # vs) st =
     (case store_add key v st of
        Inl e \<Rightarrow> (Some e, st)
      | Inr st' \<Rightarrow> add_each key vs st')"

text \<open>A transaction that makes the \<open>add\<close> requests \<open>vs\<close>: it commits when all of them
  succeed, and is aborted, leaving the store as it was, when one of them fails.\<close>

definition transaction_adds :: "('v \<Rightarrow> 'k::linorder) \<Rightarrow> 'v list \<Rightarrow> 'v list \<Rightarrow> 'v list" where
  "transaction_adds key vs st =
     (case add_each key vs st of (None, st') \<Rightarrow> st' | (Some e, st') \<Rightarrow> st)"

text \<open>\<open>store.delete(k)\<close> and \<open>store.clear()\<close>, carried out.\<close>

definition store_delete :: "('v \<Rightarrow> 'k) \<Rightarrow> 'k \<Rightarrow> 'v list \<Rightarrow> 'v list" where
  "store_delete key k st = filter (\<lambda>x. key x \<noteq> k) st"

definition store_clear :: "'v list \<Rightarrow> 'v list" where
  "store_clear st = []"

text \<open>\<open>store.get(k)\<close> and \<open>store.getAll()\<close>: what the caller gets is the request.\<close>

definition store_get :: "('v \<Rightarrow> 'k) \<Rightarrow> 'k \<Rightarrow> 'v list \<Rightarrow> 'v option js_value" where
  "store_get key k st = IDBRequest (find (\<lambda>x. key x = k) st)"

definition store_getAll :: "'v list \<Rightarrow> 'v list js_value" where
  "store_getAll st = IDBRequest st"

subsection \<open>The database and the operations of the class\<close>

record database =
  resources :: "resource list"
  favorites :: "favorite list"
  notes_store :: "note_record list"
  downloads :: "download list"
  settings :: "setting list"

definition empty_database :: database where
  "empty_database =
     \<lparr>resources = [], favorites = [], notes_store = [], downloads = [], settings = []\<rparr>"

text \<open>
  An \<open>async\<close> method gives the outcome of its promise, \<open>Inr\<close> when it is fulfilled and
  \<open>Inl\<close> when it is rejected, and the database after its requests.

  \<open>addFavorite(resourceId)\<close>; \<open>now\<close> is the value of \<open>new Date().toISOString()\<close>.
\<close>

definition addFavorite :: "string \<Rightarrow> int \<Rightarrow> database \<Rightarrow> (js_error + unit) \<times> database" where
  "addFavorite now resourceId db =
     (Inr (),
      db\<lparr>favorites :=
           transaction_adds fav_id [\<lparr>fav_id = resourceId, fav_date = now\<rparr>] (favorites db)\<rparr>)"

definition removeFavorite :: "int \<Rightarrow> database \<Rightarrow> (js_error + unit) \<times> database" where
  "removeFavorite resourceId db =
     (Inr (), db\<lparr>favorites := store_delete fav_id resourceId (favorites db)\<rparr>)"

text \<open>\<open>getFavorites()\<close>: \<open>favorites = await store.getAll()\<close>, then
  \<open>favorites.map(fav => fav.id)\<close>.\<close>

definition getFavorites :: "database \<Rightarrow> js_error + int list" where
  "getFavorites db = array_map fav_id (js_await (store_getAll (favorites db)))"

text \<open>\<open>isFavorite(resourceId)\<close>: \<open>result = await store.get(resourceId)\<close>, then
  \<open>!!result\<close>.\<close>

definition isFavorite :: "int \<Rightarrow> database \<Rightarrow> bool" where
  "isFavorite resourceId db = not_not (js_await (store_get fav_id resourceId (favorites db)))"

text \<open>\<open>getAllResources()\<close>, \<open>getDownloads()\<close> and \<open>getNotes(resourceId)\<close> return the
  request of \<open>getAll\<close>; \<open>getNotes\<close> asks the \<open>resourceId\<close> index, whose records are
  the notes of that resource in primary-key order.\<close>

definition getAllResources :: "database \<Rightarrow> resource list js_value" where
  "getAllResources db = store_getAll (resources db)"

definition getDownloads :: "database \<Rightarrow> download list js_value" where
  "getDownloads db = store_getAll (downloads db)"

definition getNotes :: "int \<Rightarrow> database \<Rightarrow> note_record list js_value" where
  "getNotes resourceId db =
     store_getAll (filter (\<lambda>n. note_resourceId n = resourceId) (notes_store db))"

text \<open>
  \<open>getAllNotes()\<close>: \<open>allNotes = await store.getAll()\<close>, then \<open>allNotes.forEach\<close> groups
  the notes in a plain object keyed by \<open>note.resourceId\<close>. The object is the list of its
  properties in the order \<open>for ... in\<close> visits them: keys that are array indices
  (integers from 0 below \<open>2^32 - 1\<close>) in ascending order first, then the other keys in
  the order of their creation.
\<close>

definition is_array_index :: "int \<Rightarrow> bool" where
  "is_array_index k \<longleftrightarrow> 0 \<le> k \<and> k < 4294967295"

fun obj_create :: "int \<Rightarrow> 'a \<Rightarrow> (int \<times> 'a) list \<Rightarrow> (int \<times> 'a) list" where
  "obj_create k v [] = [(k, v)]"
| "obj_create k v ((k', v') # ps) =
     (if is_array_index k \<and> (\<not> is_array_index k' \<or> k < k') then (k, v) # (k', v') # ps
      else (k', v') # obj_create k v ps)"

fun obj_push :: "int \<Rightarrow> 'a \<Rightarrow> (int \<times> 'a list) list \<Rightarrow> (int \<times> 'a list) list" where
  "obj_push k x [] = []"
| "obj_push k x ((k', xs) # ps) =
     (if k' = k then (k', xs @ [x]) # ps else (k', xs) # obj_push k x ps)"

definition group_note ::
  "note_record \<Rightarrow> (int \<times> note_record list) list \<Rightarrow> (int \<times> note_record list) list" where
  "group_note n obj =
     (let obj' = (if map_of obj (note_resourceId n) = None
                  then obj_create (note_resourceId n) [] obj else obj)
      in obj_push (note_resourceId n) n obj')"

definition getAllNotes :: "database \<Rightarrow> js_error + (int \<times> note_record list) list" where
  "getAllNotes db = array_forEach group_note (js_await (store_getAll (notes_store db))) []"

text \<open>
  \<open>exportData()\<close> fills \<open>data.resources\<close>, \<open>data.favorites\<close>, \<open>data.notes\<close>,
  \<open>data.downloads\<close> and \<open>data.settings\<close> in this order, awaiting each; an exception of
  \<open>getFavorites\<close> or \<open>getAllNotes\<close> rejects the export.
\<close>

record exported =
  exp_resources :: "resource list js_value"
  exp_favorites :: "int list"
  exp_notes :: "(int \<times> note_record list) list"
  exp_downloads :: "download list js_value"
  exp_settings :: "setting list js_value"

definition exportData :: "database \<Rightarrow> js_error + exported" where
  "exportData db =
     (let rs = js_await (getAllResources db) in
      case getFavorites db of
        Inl e \<Rightarrow> Inl e
      | Inr fs \<Rightarrow>
          (case getAllNotes db of
             Inl e \<Rightarrow> Inl e
           | Inr ns \<Rightarrow>
               Inr \<lparr>exp_resources = rs, exp_favorites = fs, exp_notes = ns,
                    exp_downloads = js_await (getDownloads db),
                    exp_settings = js_await (store_getAll (settings db))\<rparr>))"

text \<open>\<open>clearAllData()\<close>: one transaction and one \<open>clear\<close> per store.\<close>

definition clearAllData :: "database \<Rightarrow> (js_error + unit) \<times> database" where
  "clearAllData db =
     (Inr (),
      db\<lparr>resources := store_clear (resources db),
         favorites := store_clear (favorites db),
         notes_store := store_clear (notes_store db),
         downloads := store_clear (downloads db),
         settings := store_clear (settings db)\<rparr>)"

text \<open>
  The snapshot given to \<open>importData\<close>: the data of a backup, \<open>{resources: [...],
  favorites: [ids...], notes: {resourceId: [note...]}, downloads: [...], settings:
  [...]}\<close>. A field that is missing (\<open>undefined\<close>, which \<open>if (data.field)\<close> skips) is
  \<open>None\<close>.
\<close>

record snapshot =
  snap_resources :: "resource list option"
  snap_favorites :: "int list option"
  snap_notes :: "(int \<times> note_record list) list option"
  snap_downloads :: "download list option"
  snap_settings :: "setting list option"

text \<open>
  \<open>importData(data)\<close> first awaits \<open>clearAllData()\<close>, then opens one transaction per
  section that is present and makes one \<open>add\<close> request per record. \<open>clock i\<close> is the
  value of \<open>new Date().toISOString()\<close> when the \<open>i\<close>-th favorite of the snapshot is
  added. A section with a key that occurs twice is aborted as a whole and leaves its
  store empty; the sections after it are imported all the same.
\<close>

definition import_section ::
  "('v \<Rightarrow> 'k::linorder) \<Rightarrow> 'v list option \<Rightarrow> 'v list \<Rightarrow> 'v list" where
  "import_section key field st =
     (case field of None \<Rightarrow> st | Some vs \<Rightarrow> transaction_adds key vs st)"

definition favorite_records :: "(nat \<Rightarrow> string) \<Rightarrow> int list \<Rightarrow> favorite list" where
  "favorite_records clock ids =
     map (\<lambda>(i, x). \<lparr>fav_id = x, fav_date = clock i\<rparr>) (enumerate 0 ids)"

definition importData ::
  "(nat \<Rightarrow> string) \<Rightarrow> snapshot \<Rightarrow> database \<Rightarrow> (js_error + unit) \<times> database" where
  "importData clock data db =
     (let db0 = snd (clearAllData db);
          db1 = db0\<lparr>resources := import_section res_id (snap_resources data) (resources db0)\<rparr>;
          db2 = db1\<lparr>favorites :=
                     import_section fav_id
                       (map_option (favorite_records clock) (snap_favorites data))
                       (favorites db1)\<rparr>;
          db3 = db2\<lparr>notes_store :=
                     import_section note_id
                       (map_option (\<lambda>obj. concat (map snd obj)) (snap_notes data))
                       (notes_store db2)\<rparr>;
          db4 = db3\<lparr>downloads := import_section dl_id (snap_downloads data) (downloads db3)\<rparr>;
          db5 = db4\<lparr>settings := import_section set_key (snap_settings data) (settings db4)\<rparr>
      in (Inr (), db5))"

section \<open>Asset cache controller (sw.js)\<close>

text \<open>
  The service worker's handlers run against the browser's cache storage, the network and
  the worker's own lifecycle flags. The state below holds what the handlers read and
  change; the network is a parameter \<open>net\<close> that answers a request with a response or
  fails, and \<open>loc\<close> is \<open>location.origin\<close>. A promise is a computation on that state
  that settles as fulfilled (\<open>Inr\<close>) or rejected (\<open>Inl\<close>); an exception thrown in a
  callback rejects the promise of its \<open>then\<close>. Handlers are run one after the other, so
  a cache write started by one fetch event is complete when the next event is handled.
\<close>

record request =
  req_method :: string
  req_origin :: string
  req_pathname :: string
  req_accept :: "string option"

record response =
  resp_status :: nat
  resp_type :: string
  resp_body :: string

text \<open>A cache entry is keyed by the URL of its request: origin and path.\<close>

type_synonym url = "string \<times> string"
type_synonym cache = "(url \<times> response) list"

datatype worker_state = Installing | Installed | Activating | Activated | Redundant

datatype json = JNull | JBool bool | JNum int | JStr string | JArr "json list"
  | JObj "(string \<times> json) list"

record notification =
  ntf_title :: json
  ntf_body :: json
  ntf_icon :: json
  ntf_badge :: json

record sw_state =
  caches :: "(string \<times> cache) list"
  skipWaitingFlag :: bool
  clientsClaimed :: bool
  lifecycle :: worker_state
  console :: "string list"
  network :: "request list"
  notifications :: "notification list"

type_synonym 'a promise = "sw_state \<Rightarrow> (js_error + 'a) \<times> sw_state"

definition resolve :: "'a \<Rightarrow> 'a promise" where
  "resolve a = (\<lambda>s. (Inr a, s))"

definition reject :: "js_error \<Rightarrow> 'a promise" where
  "reject e = (\<lambda>s. (Inl e, s))"

definition p_then :: "'a promise \<Rightarrow> ('a \<Rightarrow> 'b promise) \<Rightarrow> 'b promise" where
  "p_then p f = (\<lambda>s. case p s of (Inl e, s') \<Rightarrow> (Inl e, s') | (Inr a, s') \<Rightarrow> f a s')"

definition p_catch :: "'a promise \<Rightarrow> (js_error \<Rightarrow> 'a promise) \<Rightarrow> 'a promise" where
  "p_catch p h = (\<lambda>s. case p s of (Inl e, s') \<Rightarrow> h e s' | (Inr a, s') \<Rightarrow> (Inr a, s'))"

text \<open>A promise chain that is started and neither returned nor awaited: its effects
  happen, its outcome is dropped.\<close>

definition not_awaited :: "'a promise \<Rightarrow> unit promise" where
  "not_awaited p = (\<lambda>s. (Inr (), snd (p s)))"

text \<open>\<open>Promise.all\<close> over promises that have all been started: every one runs, and the
  result is rejected with the first rejection.\<close>

fun promise_all :: "'a promise list \<Rightarrow> 'a list promise" where
  "promise_all [] = resolve []"
| "promise_all (p # ps) =
     (\<lambda>s. case p s of
        (r, s') \<Rightarrow>
          (case promise_all ps s' of
             (rs, s'') \<Rightarrow>
               ((case r of
                   Inl e \<Rightarrow> Inl e
                 | Inr a \<Rightarrow> (case rs of Inl e \<Rightarrow> Inl e | Inr as \<Rightarrow> Inr (a # as))),
                s'')))"

definition console_log :: "string \<Rightarrow> unit promise" where
  "console_log msg = (\<lambda>s. (Inr (), s\<lparr>console := console s @ [msg]\<rparr>))"

subsection \<open>Cache storage\<close>

text \<open>
  A cache storage is the list of its named caches in the order of their creation, a
  cache the list of its entries. The operations of the cache storage themselves are
  taken to succeed (no quota or security error); what can fail is the network, the
  parsing of a push payload and a property read.
\<close>

text \<open>\<open>cache.match\<close>, and \<open>cache.put\<close>, which replaces the entry of the same URL.\<close>

definition cache_match :: "url \<Rightarrow> cache \<Rightarrow> response option" where
  "cache_match k c = map_of c k"

definition cache_put :: "url \<Rightarrow> response \<Rightarrow> cache \<Rightarrow> cache" where
  "cache_put k r c = filter (\<lambda>e. fst e \<noteq> k) c @ [(k, r)]"

text \<open>\<open>caches.open(name)\<close> creates the cache when there is none of that name; the
  handle it returns is the name.\<close>

definition opened :: "string \<Rightarrow> (string \<times> cache) list \<Rightarrow> (string \<times> cache) list" where
  "opened name cs = (if name \<in> set (map fst cs) then cs else cs @ [(name, [])])"

definition caches_open :: "string \<Rightarrow> string promise" where
  "caches_open name = (\<lambda>s. (Inr name, s\<lparr>caches := opened name (caches s)\<rparr>))"

definition caches_keys :: "string list promise" where
  "caches_keys = (\<lambda>s. (Inr (map fst (caches s)), s))"

definition caches_delete :: "string \<Rightarrow> bool promise" where
  "caches_delete name =
     (\<lambda>s. (Inr (name \<in> set (map fst (caches s))),
            s\<lparr>caches := filter (\<lambda>c. fst c \<noteq> name) (caches s)\<rparr>))"

text \<open>\<open>caches.match\<close> asks every cache in the order of creation.\<close>

fun match_all :: "url \<Rightarrow> (string \<times> cache) list \<Rightarrow> response option" where
  "match_all k [] = None"
| "match_all k (c # cs) =
     (case cache_match k (snd c) of Some r \<Rightarrow> Some r | None \<Rightarrow> match_all k cs)"

definition caches_match :: "url \<Rightarrow> response option promise" where
  "caches_match k = (\<lambda>s. (Inr (match_all k (caches s)), s))"

definition put_in :: "string \<Rightarrow> url \<Rightarrow> response \<Rightarrow> unit promise" where
  "put_in name k r =
     (\<lambda>s. (Inr (),
            s\<lparr>caches := map (\<lambda>c. if fst c = name then (fst c, cache_put k r (snd c)) else c)
                            (caches s)\<rparr>))"

text \<open>\<open>fetch(request)\<close>: the request goes to the network.\<close>

definition fetch :: "(request \<Rightarrow> js_error + response) \<Rightarrow> request \<Rightarrow> response promise" where
  "fetch net r = (\<lambda>s. (net r, s\<lparr>network := network s @ [r]\<rparr>))"

definition request_key :: "request \<Rightarrow> url" where
  "request_key r = (req_origin r, req_pathname r)"

definition request_url :: "request \<Rightarrow> string" where
  "request_url r = req_origin r @ req_pathname r"

text \<open>\<open>String.prototype.includes\<close>.\<close>

fun starts_with :: "string \<Rightarrow> string \<Rightarrow> bool" where
  "starts_with s [] = True"
| "starts_with [] (c # cs) = False"
| "starts_with (d # ds) (c # cs) = (d = c \<and> starts_with ds cs)"

fun str_includes :: "string \<Rightarrow> string \<Rightarrow> bool" where
  "str_includes [] sub = (sub = [])"
| "str_includes (c # cs) sub = (starts_with (c # cs) sub \<or> str_includes cs sub)"

subsection \<open>Constants of the worker\<close>

definition CACHE_VERSION :: string where
  "CACHE_VERSION = ''qneet-v1.2.0''"

definition CACHE_NAME :: string where
  "CACHE_NAME = ''qneet-cache-'' @ CACHE_VERSION"

definition STATIC_ASSETS :: "string list" where
  "STATIC_ASSETS =
     [''/'', ''/index.html'', ''/css/styles.css'', ''/css/dark-theme.css'', ''/js/main.js'',
      ''/js/pdf-viewer.js'', ''/js/storage.js'', ''/js/utils.js'', ''/data/resources.json'',
      ''/data/categories.json'', ''/manifest.json'', ''/assets/icons/icon-192.png'',
      ''/assets/icons/icon-512.png'']"

definition DYNAMIC_ASSETS :: "string list" where
  "DYNAMIC_ASSETS = []"

subsection \<open>Install\<close>

text \<open>
  \<open>cache.addAll(paths)\<close> fetches every path and stores the responses only when every
  fetch answered with an ok status (200 to 299) other than 206 (partial content);
  otherwise it rejects and stores nothing. Response headers are not part of the model.
\<close>

definition asset_request :: "string \<Rightarrow> string \<Rightarrow> request" where
  "asset_request loc p =
     \<lparr>req_method = ''GET'', req_origin = loc, req_pathname = p, req_accept = None\<rparr>"

definition resp_ok :: "response \<Rightarrow> bool" where
  "resp_ok r \<longleftrightarrow> 200 \<le> resp_status r \<and> resp_status r \<le> 299"

definition addAll_accepts :: "response \<Rightarrow> bool" where
  "addAll_accepts r \<longleftrightarrow> resp_ok r \<and> resp_status r \<noteq> 206"

fun fetch_all ::
  "(request \<Rightarrow> js_error + response) \<Rightarrow> request list \<Rightarrow> js_error + (url \<times> response) list" where
  "fetch_all net [] = Inr []"
| "fetch_all net (r # rs) =
     (case net r of
        Inl e \<Rightarrow> Inl e
      | Inr resp \<Rightarrow>
          if \<not> addAll_accepts resp then Inl TypeError
          else (case fetch_all net rs of
                  Inl e \<Rightarrow> Inl e
                | Inr es \<Rightarrow> Inr ((request_key r, resp) # es)))"

definition cache_addAll ::
  "(request \<Rightarrow> js_error + response) \<Rightarrow> string \<Rightarrow> string \<Rightarrow> string list \<Rightarrow> unit promise" where
  "cache_addAll net loc name paths =
     (\<lambda>s. let rs = map (asset_request loc) paths;
               s1 = s\<lparr>network := network s @ rs\<rparr>
           in case fetch_all net rs of
                Inl e \<Rightarrow> (Inl e, s1)
              | Inr es \<Rightarrow>
                  p_then (promise_all (map (\<lambda>e. put_in name (fst e) (snd e)) es))
                    (\<lambda>_. resolve ()) s1)"

text \<open>A manifest fetch succeeds when the network answers with a response that
  \<open>cache.addAll\<close> accepts.\<close>

definition request_succeeds :: "(request \<Rightarrow> js_error + response) \<Rightarrow> request \<Rightarrow> bool" where
  "request_succeeds net r =
     (case net r of Inl e \<Rightarrow> False | Inr resp \<Rightarrow> addAll_accepts resp)"

definition manifest_ok :: "(request \<Rightarrow> js_error + response) \<Rightarrow> string \<Rightarrow> bool" where
  "manifest_ok net loc = list_all (request_succeeds net) (map (asset_request loc) STATIC_ASSETS)"

text \<open>The cache storage after the entries \<open>es\<close> have been put, in order, into the
  cache named \<open>name\<close>.\<close>

definition put_all ::
  "string \<Rightarrow> (url \<times> response) list \<Rightarrow> (string \<times> cache) list \<Rightarrow> (string \<times> cache) list" where
  "put_all name es cs =
     map (\<lambda>c. if fst c = name
              then (fst c, fold (\<lambda>e. cache_put (fst e) (snd e)) es (snd c)) else c) cs"

definition skipWaiting :: "unit promise" where
  "skipWaiting = (\<lambda>s. (Inr (), s\<lparr>skipWaitingFlag := True\<rparr>))"

text \<open>The promise handed to \<open>event.waitUntil\<close> by the install listener.\<close>

definition install_promise :: "(request \<Rightarrow> js_error + response) \<Rightarrow> string \<Rightarrow> unit promise" where
  "install_promise net loc =
     p_catch
       (p_then
          (p_then (caches_open CACHE_NAME)
             (\<lambda>cache. p_then (console_log ''[Service Worker] Caching static assets'')
                        (\<lambda>_. cache_addAll net loc cache STATIC_ASSETS)))
          (\<lambda>_. p_then (console_log ''[Service Worker] Skip waiting'') (\<lambda>_. skipWaiting)))
       (\<lambda>error. console_log ''[Service Worker] Failed to cache static assets:'')"

text \<open>The install event: the worker becomes installed when the promise given to
  \<open>waitUntil\<close> is fulfilled and redundant (the install has failed) when it is rejected.\<close>

definition install :: "(request \<Rightarrow> js_error + response) \<Rightarrow> string \<Rightarrow> sw_state \<Rightarrow> sw_state" where
  "install net loc s =
     (case p_then (console_log ''[Service Worker] Install event'')
                  (\<lambda>_. install_promise net loc) (s\<lparr>lifecycle := Installing\<rparr>) of
        (Inl e, s') \<Rightarrow> s'\<lparr>lifecycle := Redundant\<rparr>
      | (Inr u, s') \<Rightarrow> s'\<lparr>lifecycle := Installed\<rparr>)"

subsection \<open>Activate\<close>

definition clients_claim :: "unit promise" where
  "clients_claim = (\<lambda>s. (Inr (), s\<lparr>clientsClaimed := True\<rparr>))"

text \<open>The callback of \<open>cacheNames.map\<close>: delete a cache that is not the current one.\<close>

definition delete_old :: "string \<Rightarrow> bool option promise" where
  "delete_old cacheName =
     (if cacheName \<noteq> CACHE_NAME
      then p_then (console_log ''[Service Worker] Deleting old cache:'')
             (\<lambda>_. p_then (caches_delete cacheName) (\<lambda>b. resolve (Some b)))
      else resolve None)"

definition activate_promise :: "unit promise" where
  "activate_promise =
     p_then
       (p_then caches_keys (\<lambda>cacheNames. promise_all (map delete_old cacheNames)))
       (\<lambda>_. p_then (console_log ''[Service Worker] Claiming clients'') (\<lambda>_. clients_claim))"

text \<open>The activate event; the worker is activated whatever the outcome of the promise.\<close>

definition activate :: "sw_state \<Rightarrow> sw_state" where
  "activate s =
     (case p_then (console_log ''[Service Worker] Activate event'')
                  (\<lambda>_. activate_promise) (s\<lparr>lifecycle := Activating\<rparr>) of
        (r, s') \<Rightarrow> s'\<lparr>lifecycle := Activated\<rparr>)"

subsection \<open>Fetch\<close>

text \<open>The promise given to \<open>event.respondWith\<close> for a same-origin GET request. It is
  fulfilled with a response or with \<open>undefined\<close> (\<open>None\<close>), or rejected.\<close>

definition respond ::
  "(request \<Rightarrow> js_error + response) \<Rightarrow> string \<Rightarrow> request \<Rightarrow> response option promise" where
  "respond net loc request =
     p_then (caches_match (request_key request))
       (\<lambda>cachedResponse.
          case cachedResponse of
            Some c \<Rightarrow>
              p_then (console_log ''[Service Worker] Serving cached response for:'')
                (\<lambda>_. resolve (Some c))
          | None \<Rightarrow>
              p_then (console_log ''[Service Worker] Fetching from network:'')
                (\<lambda>_. p_catch
                        (p_then (fetch net request)
                           (\<lambda>networkResponse.
                              p_then
                                (if resp_status networkResponse = 200 \<and>
                                    resp_type networkResponse = ''basic''
                                 then not_awaited
                                        (p_then (caches_open CACHE_NAME)
                                           (\<lambda>cache.
                                              p_then (console_log
                                                  ''[Service Worker] Caching new response for:'')
                                                (\<lambda>_. put_in cache (request_key request)
                                                        networkResponse)))
                                 else resolve ())
                                (\<lambda>_. resolve (Some networkResponse))))
                        (\<lambda>error.
                           p_then (console_log ''[Service Worker] Network fetch failed:'')
                             (\<lambda>_. case req_accept request of
                                     None \<Rightarrow> reject TypeError
                                   | Some accept \<Rightarrow>
                                       if str_includes accept ''text/html''
                                       then caches_match (loc, ''/index.html'')
                                       else resolve None))))"

text \<open>
  The caching fetch listener, for a bypass list \<open>dyn\<close>. The result is \<open>None\<close> when the
  listener returns without calling \<open>respondWith\<close> (the browser handles the request as
  if there were no worker), and the settled promise given to \<open>respondWith\<close> otherwise.
\<close>

definition fetch_listener_with ::
  "string list \<Rightarrow> (request \<Rightarrow> js_error + response) \<Rightarrow> string \<Rightarrow> request \<Rightarrow> sw_state \<Rightarrow>
     (js_error + response option) option \<times> sw_state" where
  "fetch_listener_with dyn net loc request s =
     (if req_method request \<noteq> ''GET'' then (None, s)
      else if list_ex (\<lambda>asset. str_includes (req_pathname request) asset) dyn then (None, s)
      else if req_origin request = loc then
        (case respond net loc request s of (r, s') \<Rightarrow> (Some r, s'))
      else (None, s))"

definition fetch_listener ::
  "(request \<Rightarrow> js_error + response) \<Rightarrow> string \<Rightarrow> request \<Rightarrow> sw_state \<Rightarrow>
     (js_error + response option) option \<times> sw_state" where
  "fetch_listener = fetch_listener_with DYNAMIC_ASSETS"

text \<open>The second fetch listener, for external resources.\<close>

definition unavailable :: response where
  "unavailable =
     \<lparr>resp_status = 503, resp_type = ''default'', resp_body = ''External resource unavailable''\<rparr>"

definition fetch_external_listener ::
  "(request \<Rightarrow> js_error + response) \<Rightarrow> request \<Rightarrow> sw_state \<Rightarrow>
     (js_error + response option) option \<times> sw_state" where
  "fetch_external_listener net request s =
     (if str_includes (request_url request) ''external-domain.com'' then
        (case p_catch (p_then (fetch net request) (\<lambda>r. resolve (Some r)))
                (\<lambda>_. resolve (Some unavailable)) s of
           (r, s') \<Rightarrow> (Some r, s'))
      else (None, s))"

subsection \<open>Push\<close>

text \<open>
  \<open>event.data\<close> is \<open>null\<close> (\<open>None\<close>) or a message whose \<open>json()\<close> either throws a
  syntax error or returns the parsed value. Reading a property of \<open>null\<close> throws a
  type error; a value that is not an object has none of the properties read here.
\<close>

datatype push_message = Unparsable string | Parsed json

fun message_json :: "push_message \<Rightarrow> js_error + json" where
  "message_json (Unparsable text) = Inl SyntaxError"
| "message_json (Parsed j) = Inr j"

fun property_value :: "json \<Rightarrow> string \<Rightarrow> json option" where
  "property_value (JObj ps) name = map_of ps name"
| "property_value j name = None"

definition get_property :: "json \<Rightarrow> string \<Rightarrow> js_error + json option" where
  "get_property j name = (if j = JNull then Inl TypeError else Inr (property_value j name))"

fun truthy :: "json option \<Rightarrow> bool" where
  "truthy None = False"
| "truthy (Some JNull) = False"
| "truthy (Some (JBool b)) = b"
| "truthy (Some (JNum n)) = (n \<noteq> 0)"
| "truthy (Some (JStr s)) = (s \<noteq> [])"
| "truthy (Some j) = True"

text \<open>\<open>v || d\<close>.\<close>

definition js_or :: "json option \<Rightarrow> json \<Rightarrow> json" where
  "js_or v d = (case v of Some j \<Rightarrow> if truthy v then j else d | None \<Rightarrow> d)"

definition default_title :: json where
  "default_title = JStr ''QNEET Update''"

definition default_options :: notification where
  "default_options =
     \<lparr>ntf_title = default_title,
      ntf_body = JStr ''New resources are available!'',
      ntf_icon = JStr ''/assets/icons/icon-192.png'',
      ntf_badge = JStr ''/assets/icons/icon-192.png''\<rparr>"

text \<open>\<open>registration.showNotification\<close> displays the notification; it is taken to
  succeed.\<close>

definition showNotification :: "notification \<Rightarrow> unit promise" where
  "showNotification n = (\<lambda>s. (Inr (), s\<lparr>notifications := notifications s @ [n]\<rparr>))"

text \<open>The push listener; \<open>Inl e\<close> is the exception \<open>e\<close> thrown out of the listener.\<close>

definition push_listener :: "push_message option \<Rightarrow> unit promise" where
  "push_listener event_data =
     p_then (console_log ''[Service Worker] Push received'')
       (\<lambda>_. case event_data of
               None \<Rightarrow> showNotification default_options
             | Some m \<Rightarrow>
                 (case message_json m of
                    Inl e \<Rightarrow> reject e
                  | Inr data \<Rightarrow>
                      (case get_property data ''title'' of
                         Inl e \<Rightarrow> reject e
                       | Inr t \<Rightarrow>
                           (case get_property data ''body'' of
                              Inl e \<Rightarrow> reject e
                            | Inr b \<Rightarrow>
                                (case get_property data ''icon'' of
                                   Inl e \<Rightarrow> reject e
                                 | Inr i \<Rightarrow>
                                     showNotification
                                       (default_options
                                          \<lparr>ntf_title := js_or t (ntf_title default_options),
                                           ntf_body := js_or b (ntf_body default_options),
                                           ntf_icon := js_or i (ntf_icon default_options)\<rparr>))))))"

section \<open>Example data\<close>

definition example_database :: database where
  "example_database =
     \<lparr>resources =
        [\<lparr>res_id = 5, res_category = ''strategy-guides'', res_subject = ''Physics'',
          res_title = ''Physics Problem Solving Guide'', res_description = ''Step-by-step guide''\<rparr>],
      favorites = [\<lparr>fav_id = 5, fav_date = ''2023-03-22T10:00:00.000Z''\<rparr>],
      notes_store =
        [\<lparr>note_id = 1, note_resourceId = 5, note_content = ''first'', note_date = ''22/03/2023''\<rparr>,
         \<lparr>note_id = 2, note_resourceId = 3, note_content = ''other'', note_date = ''22/03/2023''\<rparr>,
         \<lparr>note_id = 3, note_resourceId = 5, note_content = ''second'', note_date = ''23/03/2023''\<rparr>],
      downloads = [\<lparr>dl_id = 7, dl_resourceId = 5, dl_title = ''Guide'', dl_progress = 100\<rparr>],
      settings = [\<lparr>set_key = ''theme'', set_value = ''dark''\<rparr>]\<rparr>"

definition offline :: "request \<Rightarrow> js_error + response" where
  "offline r = Inl NetworkError"

definition online :: "request \<Rightarrow> js_error + response" where
  "online r = Inr \<lparr>resp_status = 200, resp_type = ''basic'', resp_body = req_pathname r\<rparr>"

definition partial_content :: "request \<Rightarrow> js_error + response" where
  "partial_content r =
     Inr \<lparr>resp_status = 206, resp_type = ''basic'', resp_body = req_pathname r\<rparr>"

definition example_origin :: string where
  "example_origin = ''https://qneet.example''"

definition old_document :: response where
  "old_document =
     \<lparr>resp_status = 200, resp_type = ''basic'', resp_body = ''<html>1.1.0</html>''\<rparr>"

definition previous_generation :: sw_state where
  "previous_generation =
     \<lparr>caches = [(''qneet-cache-qneet-v1.1.0'', [((example_origin, ''/index.html''), old_document)])],
      skipWaitingFlag = False, clientsClaimed = False, lifecycle = Installing,
      console = [], network = [], notifications = []\<rparr>"

definition two_generations :: sw_state where
  "two_generations =
     previous_generation\<lparr>caches := caches previous_generation @ [(CACHE_NAME, [])]\<rparr>"

definition example_request :: "string \<Rightarrow> string \<Rightarrow> string option \<Rightarrow> request" where
  "example_request m path accept =
     \<lparr>req_method = m, req_origin = example_origin, req_pathname = path, req_accept = accept\<rparr>"

definition empty_snapshot :: snapshot where
  "empty_snapshot =
     \<lparr>snap_resources = None, snap_favorites = None, snap_notes = None,
      snap_downloads = None, snap_settings = None\<rparr>"

section \<open>Favorites\<close>

lemma transaction_single_add:
  "set (map key (transaction_adds key [v] st)) = insert (key v) (set (map key st))"
proof (cases "list_ex (\<lambda>x. key x = key v) st")
  case True
  then obtain y where "y \<in> set st" "key y = key v"
    by (auto simp: list_ex_iff)
  then have "key v \<in> key ` set st"
    by (metis imageI)
  with True show ?thesis
    by (auto simp: transaction_adds_def store_add_def)
next
  case False
  then show ?thesis
    by (simp add: transaction_adds_def store_add_def set_insort_key)
qed

text \<open>
  C8. After \<open>addFavorite(x)\<close> the favorites store holds a record with id \<open>x\<close>, and after
  \<open>removeFavorite(x)\<close> it holds none; but \<open>getFavorites()\<close> returns no list in either
  case: it calls \<open>map\<close> on the request object that \<open>await store.getAll()\<close> gives back,
  and is rejected with a type error, for every resource id and every store.
\<close>

theorem getFavorites_throws:
  "getFavorites (snd (addFavorite now x db)) = Inl TypeError \<and>
   getFavorites (snd (removeFavorite x db)) = Inl TypeError \<and>
   x \<in> set (map fav_id (favorites (snd (addFavorite now x db)))) \<and>
   x \<notin> set (map fav_id (favorites (snd (removeFavorite x db))))"
proof (intro conjI)
  show "getFavorites (snd (addFavorite now x db)) = Inl TypeError"
    by (simp add: getFavorites_def store_getAll_def js_await_def)
  show "getFavorites (snd (removeFavorite x db)) = Inl TypeError"
    by (simp add: getFavorites_def store_getAll_def js_await_def)
  have "set (map fav_id (transaction_adds fav_id [\<lparr>fav_id = x, fav_date = now\<rparr>] (favorites db)))
      = insert x (set (map fav_id (favorites db)))"
    by (simp only: transaction_single_add) simp
  then show "x \<in> set (map fav_id (favorites (snd (addFavorite now x db))))"
    by (simp add: addFavorite_def)
  show "x \<notin> set (map fav_id (favorites (snd (removeFavorite x db))))"
    by (auto simp: removeFavorite_def store_delete_def)
qed

text \<open>\<open>isFavorite\<close> answers \<open>true\<close> for every id, stored or not, for the same reason.\<close>

lemma isFavorite_always: "isFavorite x db"
  by (simp add: isFavorite_def store_get_def js_await_def)

section \<open>Export\<close>

text \<open>
  C9. \<open>exportData()\<close> is rejected with a type error for every store: it awaits
  \<open>getFavorites()\<close>, which throws. No snapshot is produced, so the sequence
  \<open>exportData()\<close>, \<open>clearAllData()\<close>, \<open>importData(snapshot)\<close> has no snapshot to import.
\<close>

theorem exportData_rejects: "exportData db = Inl TypeError"
  by (simp add: exportData_def getFavorites_def store_getAll_def js_await_def)

section \<open>Import clears first\<close>

lemma clearAllData_empty: "snd (clearAllData db) = empty_database"
  by (cases db) (simp add: clearAllData_def store_clear_def empty_database_def)

lemma transaction_adds_Nil: "transaction_adds key [] st = st"
  by (simp add: transaction_adds_def)

text \<open>
  C10. \<open>importData(snapshot)\<close> clears all five collections before it inserts anything:
  its outcome does not depend on what the store held, and every collection whose
  snapshot field is missing or empty is empty afterwards, whatever was stored before.
\<close>

theorem importData_clears_first:
  "importData clock data db = importData clock data empty_database \<and>
   (snap_resources data = None \<or> snap_resources data = Some [] \<longrightarrow>
      resources (snd (importData clock data db)) = []) \<and>
   (snap_favorites data = None \<or> snap_favorites data = Some [] \<longrightarrow>
      favorites (snd (importData clock data db)) = []) \<and>
   (snap_notes data = None \<or> snap_notes data = Some [] \<longrightarrow>
      notes_store (snd (importData clock data db)) = []) \<and>
   (snap_downloads data = None \<or> snap_downloads data = Some [] \<longrightarrow>
      downloads (snd (importData clock data db)) = []) \<and>
   (snap_settings data = None \<or> snap_settings data = Some [] \<longrightarrow>
      settings (snd (importData clock data db)) = [])"
  by (auto simp: importData_def clearAllData_empty empty_database_def import_section_def
      favorite_records_def transaction_adds_Nil Let_def)

theorem importData_clears_first_witness:
  "snap_resources empty_snapshot = None \<and> snap_favorites empty_snapshot = None \<and>
   snap_notes empty_snapshot = None \<and> snap_downloads empty_snapshot = None \<and>
   snap_settings empty_snapshot = None \<and>
   favorites example_database \<noteq> [] \<and>
   resources (snd (importData (\<lambda>i. []) empty_snapshot example_database)) = [] \<and>
   favorites (snd (importData (\<lambda>i. []) empty_snapshot example_database)) = [] \<and>
   notes_store (snd (importData (\<lambda>i. []) empty_snapshot example_database)) = [] \<and>
   downloads (snd (importData (\<lambda>i. []) empty_snapshot example_database)) = [] \<and>
   settings (snd (importData (\<lambda>i. []) empty_snapshot example_database)) = []"
proof -
  have e: "snap_resources empty_snapshot = None" "snap_favorites empty_snapshot = None"
    "snap_notes empty_snapshot = None" "snap_downloads empty_snapshot = None"
    "snap_settings empty_snapshot = None"
    by (simp_all add: empty_snapshot_def)
  have f: "favorites example_database \<noteq> []"
    by (simp add: example_database_def)
  from importData_clears_first [of "\<lambda>i. []" empty_snapshot example_database] e f
  show ?thesis by blast
qed

text \<open>A section in which a key occurs twice is undone as a whole, and the sections
  after it are imported.\<close>

lemma import_duplicate_section:
  "snd (importData (\<lambda>i. []) (empty_snapshot\<lparr>snap_favorites := Some [5, 5],
          snap_settings := Some [\<lparr>set_key = ''theme'', set_value = ''dark''\<rparr>]\<rparr>) example_database) =
     empty_database\<lparr>settings := [\<lparr>set_key = ''theme'', set_value = ''dark''\<rparr>]\<rparr>"
  by (simp add: importData_def clearAllData_empty empty_database_def import_section_def
      favorite_records_def transaction_adds_def store_add_def empty_snapshot_def Let_def)

section \<open>Install and activate\<close>

lemma fetch_all_ok:
  "list_all (request_succeeds net) rs \<Longrightarrow> \<exists>es. fetch_all net rs = Inr es"
  by (induction rs) (auto simp: request_succeeds_def split: sum.splits)

lemma fetch_all_covers:
  "fetch_all net rs = Inr es \<Longrightarrow> r \<in> set rs \<Longrightarrow> \<exists>e\<in>set es. fst e = request_key r"
  by (induction rs arbitrary: es) (auto split: sum.splits if_splits)

lemma fetch_all_entries:
  "fetch_all net rs = Inr es \<Longrightarrow> e \<in> set es \<Longrightarrow>
   \<exists>r\<in>set rs. fst e = request_key r \<and> net r = Inr (snd e)"
  by (induction rs arbitrary: es) (auto split: sum.splits if_splits)

lemma fetch_all_fails:
  "\<not> list_all (request_succeeds net) rs \<Longrightarrow> \<exists>e. fetch_all net rs = Inl e"
  by (induction rs) (auto simp: request_succeeds_def split: sum.splits)

lemma put_all_Nil: "put_all name [] cs = cs"
  by (induction cs) (auto simp: put_all_def)

lemma put_all_Cons:
  "put_all name (e # es) cs =
   put_all name es (map (\<lambda>c. if fst c = name then (fst c, cache_put (fst e) (snd e) (snd c)) else c) cs)"
  by (induction cs) (auto simp: put_all_def)

lemma promise_all_put_in:
  "promise_all (map (\<lambda>e. put_in name (fst e) (snd e)) es) s =
     (Inr (map (\<lambda>e. ()) es), s\<lparr>caches := put_all name es (caches s)\<rparr>)"
proof (induction es arbitrary: s)
  case Nil
  then show ?case by (simp add: resolve_def put_all_Nil)
next
  case (Cons e es)
  have "put_in name (fst e) (snd e) s =
      (Inr (), s\<lparr>caches := map (\<lambda>c. if fst c = name
                                       then (fst c, cache_put (fst e) (snd e) (snd c)) else c)
                                (caches s)\<rparr>)"
    by (simp add: put_in_def)
  then show ?case
    by (simp add: Cons.IH put_all_Cons)
qed

lemma names_put_all: "map fst (put_all name es cs) = map fst cs"
  by (induction cs) (auto simp: put_all_def)

lemma cache_addAll_ok:
  assumes "fetch_all net (map (asset_request loc) paths) = Inr es"
  shows "cache_addAll net loc name paths s =
     (Inr (), s\<lparr>network := network s @ map (asset_request loc) paths,
              caches := put_all name es (caches s)\<rparr>)"
  using assms by (simp add: cache_addAll_def Let_def promise_all_put_in p_then_def resolve_def)

lemma cache_addAll_fails:
  assumes "fetch_all net (map (asset_request loc) paths) = Inl e"
  shows "cache_addAll net loc name paths s =
     (Inl e, s\<lparr>network := network s @ map (asset_request loc) paths\<rparr>)"
  using assms by (simp add: cache_addAll_def Let_def)

lemma install_promise_fails:
  assumes "\<not> manifest_ok net loc"
  shows "install_promise net loc s =
     (Inr (), s\<lparr>caches := opened CACHE_NAME (caches s),
              console := console s @ [''[Service Worker] Caching static assets'',
                                      ''[Service Worker] Failed to cache static assets:''],
              network := network s @ map (asset_request loc) STATIC_ASSETS\<rparr>)"
proof -
  from assms obtain e where "fetch_all net (map (asset_request loc) STATIC_ASSETS) = Inl e"
    using fetch_all_fails by (auto simp: manifest_ok_def)
  then show ?thesis
    by (simp add: install_promise_def p_then_def p_catch_def caches_open_def console_log_def
        cache_addAll_fails)
qed

lemma install_promise_succeeds:
  assumes "fetch_all net (map (asset_request loc) STATIC_ASSETS) = Inr es"
  shows "install_promise net loc s =
     (Inr (), s\<lparr>caches := put_all CACHE_NAME es (opened CACHE_NAME (caches s)),
              console := console s @ [''[Service Worker] Caching static assets'',
                                      ''[Service Worker] Skip waiting''],
              network := network s @ map (asset_request loc) STATIC_ASSETS,
              skipWaitingFlag := True\<rparr>)"
  using assms
  by (simp add: install_promise_def p_then_def p_catch_def caches_open_def console_log_def
        cache_addAll_ok skipWaiting_def)

lemma install_fails:
  assumes "\<not> manifest_ok net loc"
  shows "install net loc s =
     s\<lparr>caches := opened CACHE_NAME (caches s),
       console := console s @ [''[Service Worker] Install event'',
                               ''[Service Worker] Caching static assets'',
                               ''[Service Worker] Failed to cache static assets:''],
       network := network s @ map (asset_request loc) STATIC_ASSETS,
       lifecycle := Installed\<rparr>"
  by (simp add: install_def p_then_def console_log_def install_promise_fails [OF assms])

lemma install_succeeds:
  assumes "fetch_all net (map (asset_request loc) STATIC_ASSETS) = Inr es"
  shows "install net loc s =
     s\<lparr>caches := put_all CACHE_NAME es (opened CACHE_NAME (caches s)),
       console := console s @ [''[Service Worker] Install event'',
                               ''[Service Worker] Caching static assets'',
                               ''[Service Worker] Skip waiting''],
       network := network s @ map (asset_request loc) STATIC_ASSETS,
       skipWaitingFlag := True,
       lifecycle := Installed\<rparr>"
  by (simp add: install_def p_then_def console_log_def install_promise_succeeds [OF assms])

lemma cache_match_put:
  "cache_match k (cache_put k' r c) = (if k = k' then Some r else cache_match k c)"
  by (induction c) (auto simp: cache_match_def cache_put_def)

lemma cache_match_fold_put:
  assumes "\<exists>e\<in>set es. fst e = k" and "\<forall>e\<in>set es. fst e = k \<longrightarrow> snd e = v"
  shows "cache_match k (fold (\<lambda>e. cache_put (fst e) (snd e)) es c) = Some v"
  using assms
proof (induction es rule: rev_induct)
  case Nil
  then show ?case by simp
next
  case (snoc e es)
  show ?case
  proof (cases "fst e = k")
    case True
    with snoc.prems(2) show ?thesis by (simp add: cache_match_put)
  next
    case False
    with snoc.prems have "\<exists>e\<in>set es. fst e = k" "\<forall>e\<in>set es. fst e = k \<longrightarrow> snd e = v"
      by auto
    from snoc.IH [OF this] False show ?thesis by (auto simp add: cache_match_put)
  qed
qed

lemma in_put_all:
  "(name, c) \<in> set (put_all name es cs) \<Longrightarrow>
   \<exists>c0. c = fold (\<lambda>e. cache_put (fst e) (snd e)) es c0"
  by (auto simp: put_all_def split: if_splits)

lemma names_opened: "set (map fst (opened name cs)) = insert name (set (map fst cs))"
  by (auto simp: opened_def)

lemma distinct_opened: "distinct (map fst cs) \<Longrightarrow> distinct (map fst (opened name cs))"
  by (auto simp: opened_def)

lemma delete_old_result:
  "\<exists>r s'. delete_old n s = (Inr r, s') \<and>
     caches s' = filter (\<lambda>c. fst c = CACHE_NAME \<or> fst c \<noteq> n) (caches s)"
  by (auto simp: delete_old_def p_then_def console_log_def caches_delete_def resolve_def
      intro: filter_cong)

lemma delete_all_result:
  "\<exists>rs s'. promise_all (map delete_old ns) s = (Inr rs, s') \<and>
     caches s' = filter (\<lambda>c. fst c = CACHE_NAME \<or> fst c \<notin> set ns) (caches s)"
proof (induction ns arbitrary: s)
  case Nil
  then show ?case by (simp add: resolve_def)
next
  case (Cons n ns)
  from delete_old_result [of n s] obtain r s1 where
    1: "delete_old n s = (Inr r, s1)"
       "caches s1 = filter (\<lambda>c. fst c = CACHE_NAME \<or> fst c \<noteq> n) (caches s)"
    by blast
  from Cons.IH [of s1] obtain rs s2 where
    2: "promise_all (map delete_old ns) s1 = (Inr rs, s2)"
       "caches s2 = filter (\<lambda>c. fst c = CACHE_NAME \<or> fst c \<notin> set ns) (caches s1)"
    by blast
  have "promise_all (map delete_old (n # ns)) s = (Inr (r # rs), s2)"
    using 1(1) 2(1) by simp
  moreover have "caches s2 = filter (\<lambda>c. fst c = CACHE_NAME \<or> fst c \<notin> set (n # ns)) (caches s)"
    using 1(2) 2(2) by (auto intro: filter_cong)
  ultimately show ?case by blast
qed

lemma activate_promise_delete_old:
  "activate_promise =
     p_then (p_then caches_keys (\<lambda>cacheNames. promise_all (map delete_old cacheNames)))
       (\<lambda>_. p_then (console_log ''[Service Worker] Claiming clients'') (\<lambda>_. clients_claim))"
  by (simp add: activate_promise_def)

lemma caches_activate: "caches (activate s) = filter (\<lambda>c. fst c = CACHE_NAME) (caches s)"
proof -
  let ?s0 = "s\<lparr>lifecycle := Activating,
                 console := console s @ [''[Service Worker] Activate event'']\<rparr>"
  from delete_all_result [of "map fst (caches s)" ?s0] obtain rs s' where
    d: "promise_all (map delete_old (map fst (caches s))) ?s0 = (Inr rs, s')"
       "caches s' = filter (\<lambda>c. fst c = CACHE_NAME \<or> fst c \<notin> set (map fst (caches s))) (caches ?s0)"
    by blast
  have "caches s' = filter (\<lambda>c. fst c = CACHE_NAME) (caches s)"
    using d(2) by (auto intro: filter_cong)
  then show ?thesis
    using d(1)
    by (simp add: activate_def activate_promise_delete_old p_then_def console_log_def
        caches_keys_def clients_claim_def)
qed


lemma filter_single: "distinct xs \<Longrightarrow> n \<in> set xs \<Longrightarrow> filter (\<lambda>x. x = n) xs = [n]"
  by (induction xs) (auto simp: filter_empty_conv)

lemma names_activate:
  "map fst (caches (activate s)) = filter (\<lambda>n. n = CACHE_NAME) (map fst (caches s))"
  by (simp add: caches_activate filter_map comp_def)

text \<open>
  C1, as the code has it. The install listener catches a failed population: whatever the
  network answers, the worker becomes installed. \<open>skipWaiting\<close> is requested exactly
  when every manifest fetch succeeds, that is, is answered with an ok status other than
  206. When a manifest fetch fails, \<open>cache.addAll\<close> stores
  nothing (the new generation is created empty and the other generations are untouched)
  and the failure is logged; when all succeed, the new generation holds every manifest
  asset with the response the network gave.
\<close>

theorem install_outcome:
  "lifecycle (install net loc s) = Installed \<and>
   skipWaitingFlag (install net loc s) = (skipWaitingFlag s \<or> manifest_ok net loc) \<and>
   (\<not> manifest_ok net loc \<longrightarrow>
      caches (install net loc s) = opened CACHE_NAME (caches s) \<and>
      last (console (install net loc s)) = ''[Service Worker] Failed to cache static assets:'') \<and>
   (manifest_ok net loc \<longrightarrow>
      CACHE_NAME \<in> set (map fst (caches (install net loc s))) \<and>
      (\<forall>p resp c. p \<in> set STATIC_ASSETS \<and> net (asset_request loc p) = Inr resp \<and>
          (CACHE_NAME, c) \<in> set (caches (install net loc s)) \<longrightarrow>
          cache_match (loc, p) c = Some resp))"
proof (cases "manifest_ok net loc")
  case False
  then show ?thesis by (simp add: install_fails)
next
  case True
  then obtain es where
    es: "fetch_all net (map (asset_request loc) STATIC_ASSETS) = Inr es"
    using fetch_all_ok by (auto simp: manifest_ok_def)
  have stored: "cache_match (loc, p) c = Some resp"
    if p: "p \<in> set STATIC_ASSETS" and n: "net (asset_request loc p) = Inr resp"
      and c: "(CACHE_NAME, c) \<in> set (put_all CACHE_NAME es (opened CACHE_NAME (caches s)))"
    for p resp c
  proof -
    from in_put_all [OF c] obtain c0 where
      c0: "c = fold (\<lambda>e. cache_put (fst e) (snd e)) es c0" by blast
    have "asset_request loc p \<in> set (map (asset_request loc) STATIC_ASSETS)"
      using p by simp
    from fetch_all_covers [OF es this]
    obtain e where "e \<in> set es" "fst e = request_key (asset_request loc p)"
      by blast
    then have ex: "\<exists>e\<in>set es. fst e = (loc, p)"
      by (auto simp: request_key_def asset_request_def)
    have all: "\<forall>e\<in>set es. fst e = (loc, p) \<longrightarrow> snd e = resp"
    proof (intro ballI impI)
      fix e assume e: "e \<in> set es" "fst e = (loc, p)"
      from fetch_all_entries [OF es e(1)]
      obtain r where r: "r \<in> set (map (asset_request loc) STATIC_ASSETS)"
        "fst e = request_key r" "net r = Inr (snd e)"
        by blast
      with e(2) have "r = asset_request loc p"
        by (auto simp: request_key_def asset_request_def)
      with r(3) n show "snd e = resp" by simp
    qed
    from cache_match_fold_put [OF ex all] c0 show ?thesis by simp
  qed
  have "CACHE_NAME \<in> set (map fst (put_all CACHE_NAME es (opened CACHE_NAME (caches s))))"
    by (simp only: names_put_all names_opened) simp
  with True stored show ?thesis
    by (simp add: install_succeeds [OF es])
qed

lemma offline_manifest: "\<not> manifest_ok offline example_origin"
  by (simp add: manifest_ok_def STATIC_ASSETS_def request_succeeds_def offline_def)

lemma caches_after_failed_install:
  "caches (activate (install offline example_origin previous_generation)) = [(CACHE_NAME, [])]"
proof -
  have "opened CACHE_NAME (caches previous_generation) =
      caches previous_generation @ [(CACHE_NAME, [])]"
    by (simp add: opened_def previous_generation_def CACHE_NAME_def CACHE_VERSION_def)
  then show ?thesis
    by (simp add: install_fails [OF offline_manifest] caches_activate)
       (simp add: previous_generation_def CACHE_NAME_def CACHE_VERSION_def)
qed

text \<open>
  With the network down the install does not fail: the worker is installed, and the
  activation that follows deletes the previous generation and leaves the new, empty one.
\<close>

theorem install_swallows_failure:
  "\<not> manifest_ok offline example_origin \<and>
   lifecycle (install offline example_origin previous_generation) = Installed \<and>
   caches (activate (install offline example_origin previous_generation)) = [(CACHE_NAME, [])]"
proof (intro conjI)
  show "\<not> manifest_ok offline example_origin"
    by (rule offline_manifest)
  show "lifecycle (install offline example_origin previous_generation) = Installed"
    by (simp add: install_fails [OF offline_manifest])
  show "caches (activate (install offline example_origin previous_generation)) = [(CACHE_NAME, [])]"
    by (rule caches_after_failed_install)
qed

theorem install_outcome_witness:
  "\<not> manifest_ok offline example_origin \<and>
   caches (install offline example_origin previous_generation) =
     caches previous_generation @ [(CACHE_NAME, [])] \<and>
   \<not> skipWaitingFlag (install offline example_origin previous_generation) \<and>
   \<not> manifest_ok partial_content example_origin \<and>
   \<not> skipWaitingFlag (install partial_content example_origin previous_generation) \<and>
   manifest_ok online example_origin \<and>
   skipWaitingFlag (install online example_origin previous_generation)"
proof -
  have p: "\<not> manifest_ok partial_content example_origin"
    by (simp add: manifest_ok_def STATIC_ASSETS_def request_succeeds_def partial_content_def
        addAll_accepts_def)
  have n: "manifest_ok online example_origin"
    by (simp add: manifest_ok_def STATIC_ASSETS_def request_succeeds_def online_def resp_ok_def
        addAll_accepts_def)
  have c: "opened CACHE_NAME (caches previous_generation) =
      caches previous_generation @ [(CACHE_NAME, [])]"
    by (simp add: opened_def previous_generation_def CACHE_NAME_def CACHE_VERSION_def)
  have f: "\<not> skipWaitingFlag previous_generation"
    by (simp add: previous_generation_def)
  from install_outcome [of offline example_origin previous_generation]
       install_outcome [of partial_content example_origin previous_generation]
       install_outcome [of online example_origin previous_generation] offline_manifest p n c f
  show ?thesis by simp
qed

text \<open>
  C2. After activate no cache generation with a name other than the current one is
  left; where the current generation exists it is the only one left; and it exists once
  install has run, so that install followed by activate leaves exactly the current
  generation. Cache names are distinct, as in every cache storage.
\<close>

theorem activate_single_generation:
  assumes "distinct (map fst (caches s))"
  shows "(\<forall>n. n \<noteq> CACHE_NAME \<longrightarrow> n \<notin> set (map fst (caches (activate s)))) \<and>
         (CACHE_NAME \<in> set (map fst (caches s)) \<longrightarrow>
            map fst (caches (activate s)) = [CACHE_NAME]) \<and>
         map fst (caches (activate (install net loc s))) = [CACHE_NAME]"
proof (intro conjI allI impI)
  fix n assume "n \<noteq> CACHE_NAME"
  then show "n \<notin> set (map fst (caches (activate s)))"
    by (auto simp: caches_activate)
next
  assume "CACHE_NAME \<in> set (map fst (caches s))"
  with assms show "map fst (caches (activate s)) = [CACHE_NAME]"
    by (simp only: names_activate filter_single)
next
  have names: "map fst (caches (install net loc s)) = map fst (opened CACHE_NAME (caches s))"
  proof (cases "manifest_ok net loc")
    case False
    then show ?thesis by (simp add: install_fails)
  next
    case True
    then obtain es where "fetch_all net (map (asset_request loc) STATIC_ASSETS) = Inr es"
      using fetch_all_ok by (auto simp: manifest_ok_def)
    then show ?thesis by (simp add: install_succeeds names_put_all)
  qed
  have "distinct (map fst (caches (install net loc s)))"
    using assms by (simp only: names distinct_opened)
  moreover have "CACHE_NAME \<in> set (map fst (caches (install net loc s)))"
    by (simp only: names names_opened) simp
  ultimately show "map fst (caches (activate (install net loc s))) = [CACHE_NAME]"
    by (simp only: names_activate filter_single)
qed

theorem activate_single_generation_witness:
  "distinct (map fst (caches previous_generation)) \<and>
   ''qneet-cache-qneet-v1.1.0'' \<in> set (map fst (caches previous_generation)) \<and>
   map fst (caches (activate (install online example_origin previous_generation))) = [CACHE_NAME] \<and>
   distinct (map fst (caches two_generations)) \<and>
   CACHE_NAME \<in> set (map fst (caches two_generations)) \<and>
   map fst (caches two_generations) = [''qneet-cache-qneet-v1.1.0'', CACHE_NAME] \<and>
   map fst (caches (activate two_generations)) = [CACHE_NAME]"
proof -
  have d: "distinct (map fst (caches previous_generation))"
    by (simp add: previous_generation_def)
  have o: "''qneet-cache-qneet-v1.1.0'' \<in> set (map fst (caches previous_generation))"
    by (simp add: previous_generation_def)
  have t: "map fst (caches two_generations) = [''qneet-cache-qneet-v1.1.0'', CACHE_NAME]"
    by (simp add: two_generations_def previous_generation_def)
  have n: "''qneet-cache-qneet-v1.1.0'' \<noteq> CACHE_NAME"
    by (simp add: CACHE_NAME_def CACHE_VERSION_def)
  have d2: "distinct (map fst (caches two_generations))"
    using n by (simp only: t) simp
  have c2: "CACHE_NAME \<in> set (map fst (caches two_generations))"
    by (simp only: t) simp
  from activate_single_generation [OF d, of online example_origin]
  have 1: "map fst (caches (activate (install online example_origin previous_generation))) =
      [CACHE_NAME]"
    by blast
  from activate_single_generation [OF d2, of online example_origin] c2
  have 2: "map fst (caches (activate two_generations)) = [CACHE_NAME]"
    by blast
  from d o t d2 c2 1 2 show ?thesis by blast
qed

section \<open>The fetch listeners\<close>

lemma respond_hit:
  assumes "match_all (request_key r) (caches s) = Some c"
  shows "respond net loc r s =
     (Inr (Some c), s\<lparr>console := console s @ [''[Service Worker] Serving cached response for:'']\<rparr>)"
  using assms by (simp add: respond_def p_then_def caches_match_def console_log_def resolve_def)

lemma respond_store:
  assumes "match_all (request_key r) (caches s) = None" and "net r = Inr resp"
    and "resp_status resp = 200" and "resp_type resp = ''basic''"
  shows "respond net loc r s =
     (Inr (Some resp),
      s\<lparr>console := console s @ [''[Service Worker] Fetching from network:'',
                               ''[Service Worker] Caching new response for:''],
        network := network s @ [r],
        caches := put_all CACHE_NAME [(request_key r, resp)] (opened CACHE_NAME (caches s))\<rparr>)"
  using assms
  by (simp add: respond_def p_then_def p_catch_def caches_match_def console_log_def resolve_def
      fetch_def not_awaited_def caches_open_def put_in_def put_all_def)

lemma respond_pass:
  assumes "match_all (request_key r) (caches s) = None" and "net r = Inr resp"
    and "\<not> (resp_status resp = 200 \<and> resp_type resp = ''basic'')"
  shows "respond net loc r s =
     (Inr (Some resp),
      s\<lparr>console := console s @ [''[Service Worker] Fetching from network:''],
        network := network s @ [r]\<rparr>)"
  using assms
  by (auto simp: respond_def p_then_def p_catch_def caches_match_def console_log_def resolve_def
      fetch_def)

lemma respond_offline:
  assumes "match_all (request_key r) (caches s) = None" and "net r = Inl e"
  shows "respond net loc r s =
     ((case req_accept r of
         None \<Rightarrow> Inl TypeError
       | Some accept \<Rightarrow>
           if str_includes accept ''text/html''
           then Inr (match_all (loc, ''/index.html'') (caches s)) else Inr None),
      s\<lparr>console := console s @ [''[Service Worker] Fetching from network:'',
                               ''[Service Worker] Network fetch failed:''],
        network := network s @ [r]\<rparr>)"
  using assms
  by (simp add: respond_def p_then_def p_catch_def caches_match_def console_log_def resolve_def
      fetch_def reject_def split: option.splits)

lemma match_all_opened: "match_all k (opened name cs) = match_all k cs"
  by (induction cs) (auto simp: opened_def cache_match_def split: option.splits)

lemma match_all_put:
  "match_all k cs = None \<Longrightarrow> name \<in> set (map fst cs) \<Longrightarrow>
   match_all k (put_all name [(k, r)] cs) = Some r"
proof (induction cs)
  case Nil
  then show ?case by simp
next
  case (Cons c cs)
  from Cons.prems(1) have miss: "cache_match k (snd c) = None" "match_all k cs = None"
    by (auto split: option.splits)
  show ?case
  proof (cases "fst c = name")
    case True
    then show ?thesis by (simp add: put_all_def cache_match_put)
  next
    case False
    with Cons.prems(2) have "name \<in> set (map fst cs)" by auto
    from Cons.IH [OF miss(2) this] False miss(1) show ?thesis
      by (simp add: put_all_def)
  qed
qed

lemma fetch_listener_same_origin:
  "req_method r = ''GET'' \<Longrightarrow> req_origin r = loc \<Longrightarrow>
   fetch_listener net loc r s = (Some (fst (respond net loc r s)), snd (respond net loc r s))"
  by (simp add: fetch_listener_def fetch_listener_with_def DYNAMIC_ASSETS_def split: prod.splits)

text \<open>
  C3. For a same-origin GET request: when a cache holds the request, the listener
  answers with the cached response and sends nothing to the network. When no cache
  holds it and the network answers with status 200 and type basic, the listener answers
  with that response, the current generation then holds it under the URL of the request,
  and the next request for the same URL is answered with the same response, with the
  same body, whatever the network would do and with nothing sent to the network.
\<close>

theorem fetch_cache_first:
  assumes "req_method r = ''GET''" and "req_origin r = loc"
  shows "(\<forall>c. match_all (request_key r) (caches s) = Some c \<longrightarrow>
            fst (fetch_listener net loc r s) = Some (Inr (Some c)) \<and>
            network (snd (fetch_listener net loc r s)) = network s) \<and>
         (\<forall>resp. match_all (request_key r) (caches s) = None \<and> net r = Inr resp \<and>
              resp_status resp = 200 \<and> resp_type resp = ''basic'' \<longrightarrow>
            fst (fetch_listener net loc r s) = Some (Inr (Some resp)) \<and>
            CACHE_NAME \<in> set (map fst (caches (snd (fetch_listener net loc r s)))) \<and>
            (\<forall>c. (CACHE_NAME, c) \<in> set (caches (snd (fetch_listener net loc r s))) \<longrightarrow>
               cache_match (request_key r) c = Some resp) \<and>
            (\<forall>net'.
               fst (fetch_listener net' loc r (snd (fetch_listener net loc r s))) =
                 Some (Inr (Some resp)) \<and>
               network (snd (fetch_listener net' loc r (snd (fetch_listener net loc r s)))) =
                 network (snd (fetch_listener net loc r s))))"
proof (intro conjI allI impI)
  fix c assume "match_all (request_key r) (caches s) = Some c"
  then show "fst (fetch_listener net loc r s) = Some (Inr (Some c))"
    and "network (snd (fetch_listener net loc r s)) = network s"
    using assms by (simp_all add: fetch_listener_same_origin respond_hit)
next
  fix resp
  assume h: "match_all (request_key r) (caches s) = None \<and> net r = Inr resp \<and>
              resp_status resp = 200 \<and> resp_type resp = ''basic''"
  let ?s1 = "snd (fetch_listener net loc r s)"
  have s1: "fetch_listener net loc r s =
     (Some (Inr (Some resp)),
      s\<lparr>console := console s @ [''[Service Worker] Fetching from network:'',
                               ''[Service Worker] Caching new response for:''],
        network := network s @ [r],
        caches := put_all CACHE_NAME [(request_key r, resp)] (opened CACHE_NAME (caches s))\<rparr>)"
    using assms h by (simp add: fetch_listener_same_origin respond_store)
  show "fst (fetch_listener net loc r s) = Some (Inr (Some resp))"
    by (simp add: s1)
  show "CACHE_NAME \<in> set (map fst (caches ?s1))"
    by (simp add: s1 del: set_map) (simp only: names_put_all names_opened, simp)
  show "cache_match (request_key r) c = Some resp"
    if "(CACHE_NAME, c) \<in> set (caches ?s1)" for c
  proof -
    from that have "(CACHE_NAME, c) \<in>
        set (put_all CACHE_NAME [(request_key r, resp)] (opened CACHE_NAME (caches s)))"
      by (simp add: s1)
    from in_put_all [OF this] show ?thesis
      by (auto simp: cache_match_put)
  qed
  have hit: "match_all (request_key r) (caches ?s1) = Some resp"
  proof -
    have "match_all (request_key r) (opened CACHE_NAME (caches s)) = None"
      using h by (simp add: match_all_opened)
    moreover have "CACHE_NAME \<in> set (map fst (opened CACHE_NAME (caches s)))"
      by (simp only: names_opened) simp
    ultimately show ?thesis
      by (simp add: s1 match_all_put)
  qed
  fix net'
  have again: "fetch_listener net' loc r ?s1 =
      (Some (Inr (Some resp)),
       ?s1\<lparr>console := console ?s1 @ [''[Service Worker] Serving cached response for:'']\<rparr>)"
    using assms(1,2) fetch_listener_same_origin [of r loc net' ?s1] respond_hit [OF hit, of net' loc]
    by simp
  show "fst (fetch_listener net' loc r ?s1) = Some (Inr (Some resp))"
    by (simp only: again fst_conv)
  show "network (snd (fetch_listener net' loc r ?s1)) = network ?s1"
    by (simp only: again snd_conv) simp
qed

text \<open>
  C4, as the code has it. For a same-origin GET request that no cache holds and whose
  network fetch fails, with an \<open>Accept\<close> header that includes \<open>text/html\<close>: the
  listener answers with the result of \<open>caches.match('/index.html')\<close>, which is the cached
  root document when a cache holds it and \<open>undefined\<close>, a failed fetch for the page,
  when no cache does; the caches are left as they were.
\<close>

theorem offline_html_fallback:
  assumes "req_method r = ''GET''" and "req_origin r = loc"
    and "match_all (request_key r) (caches s) = None" and "net r = Inl e"
    and "req_accept r = Some accept" and "str_includes accept ''text/html''"
  shows "fst (fetch_listener net loc r s) =
           Some (Inr (match_all (loc, ''/index.html'') (caches s))) \<and>
         (\<forall>document. match_all (loc, ''/index.html'') (caches s) = Some document \<longrightarrow>
            fst (fetch_listener net loc r s) = Some (Inr (Some document))) \<and>
         (match_all (loc, ''/index.html'') (caches s) = None \<longrightarrow>
            fst (fetch_listener net loc r s) = Some (Inr None)) \<and>
         caches (snd (fetch_listener net loc r s)) = caches s"
  using assms by (simp add: fetch_listener_same_origin respond_offline)

text \<open>
  After an install with the network down and the activation that follows, no cache
  holds \<open>/index.html\<close>: offline, a request for a page that accepts HTML is answered
  with \<open>undefined\<close>, not with a document.
\<close>

theorem offline_without_root_document:
  "req_method (example_request ''GET'' ''/notes'' (Some ''text/html'')) = ''GET'' \<and>
   req_origin (example_request ''GET'' ''/notes'' (Some ''text/html'')) = example_origin \<and>
   offline (example_request ''GET'' ''/notes'' (Some ''text/html'')) = Inl NetworkError \<and>
   str_includes ''text/html'' ''text/html'' \<and>
   fst (fetch_listener offline example_origin (example_request ''GET'' ''/notes'' (Some ''text/html''))
          (activate (install offline example_origin previous_generation))) = Some (Inr None)"
proof -
  let ?r = "example_request ''GET'' ''/notes'' (Some ''text/html'')"
  let ?s = "activate (install offline example_origin previous_generation)"
  have g: "req_method ?r = ''GET''" and o: "req_origin ?r = example_origin"
    by (simp_all add: example_request_def)
  have m: "match_all (request_key ?r) (caches ?s) = None"
    by (simp add: caches_after_failed_install cache_match_def)
  have n: "offline ?r = Inl NetworkError"
    by (simp add: offline_def)
  have i: "match_all (example_origin, ''/index.html'') (caches ?s) = None"
    by (simp add: caches_after_failed_install cache_match_def)
  have a: "req_accept ?r = Some ''text/html''"
    by (simp add: example_request_def)
  have "fst (respond offline example_origin ?r ?s) = Inr None"
    by (simp only: respond_offline [where net = offline, OF m n] fst_conv a i) simp
  then show ?thesis
    using g o by (simp add: fetch_listener_same_origin offline_def)
qed

text \<open>
  C5. A request that is not a GET, or whose path contains an entry of the bypass list,
  is left alone by the caching listener: \<open>respondWith\<close> is not called and nothing in the
  state of the worker changes, whatever the network would answer. The listener for
  external resources never writes a cache entry either.
\<close>

theorem bypass_untouched:
  assumes "req_method r \<noteq> ''GET'' \<or> list_ex (\<lambda>asset. str_includes (req_pathname r) asset) dyn"
  shows "fetch_listener_with dyn net loc r s = (None, s) \<and>
         (req_method r \<noteq> ''GET'' \<longrightarrow> fetch_listener net loc r s = (None, s)) \<and>
         caches (snd (fetch_external_listener net r s)) = caches s"
  using assms
  by (auto simp: fetch_listener_with_def fetch_listener_def fetch_external_listener_def
      p_catch_def p_then_def fetch_def resolve_def split: sum.splits)

section \<open>Examples of the fetch listeners, push, recovery\<close>

theorem fetch_cache_first_witness:
  "req_method (example_request ''GET'' ''/notes'' None) = ''GET'' \<and>
   req_origin (example_request ''GET'' ''/notes'' None) = example_origin \<and>
   match_all (request_key (example_request ''GET'' ''/notes'' None)) (caches previous_generation) = None \<and>
   online (example_request ''GET'' ''/notes'' None) =
     Inr \<lparr>resp_status = 200, resp_type = ''basic'', resp_body = ''/notes''\<rparr> \<and>
   fst (fetch_listener offline example_origin (example_request ''GET'' ''/notes'' None)
          (snd (fetch_listener online example_origin (example_request ''GET'' ''/notes'' None)
                  previous_generation))) =
     Some (Inr (Some \<lparr>resp_status = 200, resp_type = ''basic'', resp_body = ''/notes''\<rparr>)) \<and>
   match_all (request_key (example_request ''GET'' ''/index.html'' None)) (caches previous_generation) =
     Some old_document \<and>
   fst (fetch_listener offline example_origin (example_request ''GET'' ''/index.html'' None)
          previous_generation) = Some (Inr (Some old_document))"
proof -
  have g: "req_method (example_request ''GET'' p None) = ''GET''"
      "req_origin (example_request ''GET'' p None) = example_origin" for p
    by (simp_all add: example_request_def)
  have m: "match_all (request_key (example_request ''GET'' ''/notes'' None))
      (caches previous_generation) = None"
    by (simp add: example_request_def request_key_def previous_generation_def cache_match_def)
  have n: "online (example_request ''GET'' ''/notes'' None) =
      Inr \<lparr>resp_status = 200, resp_type = ''basic'', resp_body = ''/notes''\<rparr>"
    by (simp add: online_def example_request_def)
  have i: "match_all (request_key (example_request ''GET'' ''/index.html'' None))
      (caches previous_generation) = Some old_document"
    by (simp add: example_request_def request_key_def previous_generation_def cache_match_def)
  from fetch_cache_first [OF g, of "''/notes''" previous_generation online] m n
  have 1: "fst (fetch_listener offline example_origin (example_request ''GET'' ''/notes'' None)
          (snd (fetch_listener online example_origin (example_request ''GET'' ''/notes'' None)
                  previous_generation))) =
     Some (Inr (Some \<lparr>resp_status = 200, resp_type = ''basic'', resp_body = ''/notes''\<rparr>))"
    by simp
  from fetch_cache_first [OF g, of "''/index.html''" previous_generation offline] i
  have 2: "fst (fetch_listener offline example_origin (example_request ''GET'' ''/index.html'' None)
          previous_generation) = Some (Inr (Some old_document))"
    by simp
  from g m n i 1 2 show ?thesis by simp
qed

theorem offline_html_fallback_witness:
  "req_method (example_request ''GET'' ''/notes'' (Some ''text/html,application/xhtml+xml'')) = ''GET'' \<and>
   match_all (request_key (example_request ''GET'' ''/notes'' (Some ''text/html,application/xhtml+xml'')))
     (caches previous_generation) = None \<and>
   offline (example_request ''GET'' ''/notes'' (Some ''text/html,application/xhtml+xml'')) =
     Inl NetworkError \<and>
   str_includes ''text/html,application/xhtml+xml'' ''text/html'' \<and>
   match_all (example_origin, ''/index.html'') (caches previous_generation) = Some old_document \<and>
   fst (fetch_listener offline example_origin
          (example_request ''GET'' ''/notes'' (Some ''text/html,application/xhtml+xml''))
          previous_generation) = Some (Inr (Some old_document))"
proof -
  let ?r = "example_request ''GET'' ''/notes'' (Some ''text/html,application/xhtml+xml'')"
  have g: "req_method ?r = ''GET''" and o: "req_origin ?r = example_origin"
    and a: "req_accept ?r = Some ''text/html,application/xhtml+xml''"
    by (simp_all add: example_request_def)
  have m: "match_all (request_key ?r) (caches previous_generation) = None"
    by (simp add: example_request_def request_key_def previous_generation_def cache_match_def)
  have n: "offline ?r = Inl NetworkError"
    by (simp add: offline_def)
  have h: "str_includes ''text/html,application/xhtml+xml'' ''text/html''"
    by simp
  have i: "match_all (example_origin, ''/index.html'') (caches previous_generation) = Some old_document"
    by (simp add: previous_generation_def cache_match_def)
  from offline_html_fallback [where net = offline and r = ?r, OF g o m n a h] g m n h i
  show ?thesis by simp
qed

theorem bypass_untouched_witness:
  "req_method (example_request ''POST'' ''/notes'' None) \<noteq> ''GET'' \<and>
   fetch_listener online example_origin (example_request ''POST'' ''/notes'' None) previous_generation =
     (None, previous_generation) \<and>
   list_ex (\<lambda>asset. str_includes (req_pathname (example_request ''GET'' ''/api/notes'' None)) asset)
     [''/api/''] \<and>
   fetch_listener_with [''/api/''] online example_origin (example_request ''GET'' ''/api/notes'' None)
     previous_generation = (None, previous_generation)"
proof -
  have p: "req_method (example_request ''POST'' ''/notes'' None) \<noteq> ''GET''"
    by (simp add: example_request_def)
  have b: "list_ex (\<lambda>asset. str_includes (req_pathname (example_request ''GET'' ''/api/notes'' None)) asset)
     [''/api/'']"
    by (simp add: example_request_def)
  from bypass_untouched [of "example_request ''POST'' ''/notes'' None" "[]" online example_origin
      previous_generation] p
  have 1: "fetch_listener online example_origin (example_request ''POST'' ''/notes'' None)
      previous_generation = (None, previous_generation)"
    by simp
  from bypass_untouched [of "example_request ''GET'' ''/api/notes'' None" "[''/api/'']" online
      example_origin previous_generation] b
  have 2: "fetch_listener_with [''/api/''] online example_origin
      (example_request ''GET'' ''/api/notes'' None) previous_generation = (None, previous_generation)"
    by blast
  from p b 1 2 show ?thesis by blast
qed

lemma push_no_data:
  "push_listener None s =
     (Inr (), s\<lparr>console := console s @ [''[Service Worker] Push received''],
              notifications := notifications s @ [default_options]\<rparr>)"
  by (simp add: push_listener_def p_then_def console_log_def showNotification_def)

lemma push_unparsable:
  "push_listener (Some (Unparsable text)) s =
     (Inl SyntaxError, s\<lparr>console := console s @ [''[Service Worker] Push received'']\<rparr>)"
  by (simp add: push_listener_def p_then_def console_log_def reject_def)


lemma push_parsed:
  "j \<noteq> JNull \<Longrightarrow> push_listener (Some (Parsed j)) s =
     (Inr (), s\<lparr>console := console s @ [''[Service Worker] Push received''],
              notifications := notifications s @
                [\<lparr>ntf_title = js_or (property_value j ''title'') default_title,
                  ntf_body = js_or (property_value j ''body'') (JStr ''New resources are available!''),
                  ntf_icon = js_or (property_value j ''icon'') (JStr ''/assets/icons/icon-192.png''),
                  ntf_badge = JStr ''/assets/icons/icon-192.png''\<rparr>]\<rparr>)"
  by (simp add: push_listener_def p_then_def console_log_def showNotification_def
      get_property_def default_options_def)

text \<open>
  C6, as the code has it. A push event without payload, or whose payload parses to a
  JSON value other than \<open>null\<close>, shows exactly one notification; each of title, body and
  icon is the value of the payload when that value is truthy and the default otherwise.
  A payload that does not parse makes the listener throw a syntax error, and no
  notification is shown.
\<close>

theorem push_notification:
  "(event_data = None \<longrightarrow>
      fst (push_listener event_data s) = Inr () \<and>
      notifications (snd (push_listener event_data s)) = notifications s @ [default_options]) \<and>
   (\<forall>j. event_data = Some (Parsed j) \<and> j \<noteq> JNull \<longrightarrow>
      fst (push_listener event_data s) = Inr () \<and>
      notifications (snd (push_listener event_data s)) = notifications s @
        [\<lparr>ntf_title = js_or (property_value j ''title'') default_title,
          ntf_body = js_or (property_value j ''body'') (JStr ''New resources are available!''),
          ntf_icon = js_or (property_value j ''icon'') (JStr ''/assets/icons/icon-192.png''),
          ntf_badge = JStr ''/assets/icons/icon-192.png''\<rparr>]) \<and>
   (\<forall>text. event_data = Some (Unparsable text) \<longrightarrow>
      fst (push_listener event_data s) = Inl SyntaxError \<and>
      notifications (snd (push_listener event_data s)) = notifications s) \<and>
   (\<forall>v d. \<not> truthy v \<longrightarrow> js_or v d = d) \<and>
   (\<forall>j d. truthy (Some j) \<longrightarrow> js_or (Some j) d = j)"
  by (auto simp: push_no_data push_unparsable push_parsed js_or_def split: option.splits)

text \<open>
  A payload that is not JSON: the listener throws and shows nothing.
\<close>

theorem push_unparsable_throws:
  "fst (push_listener (Some (Unparsable ''not json'')) previous_generation) = Inl SyntaxError \<and>
   notifications (snd (push_listener (Some (Unparsable ''not json'')) previous_generation)) = []"
  by (simp add: push_unparsable previous_generation_def)

theorem push_notification_witness:
  "JObj [(''title'', JStr ''Exam dates''), (''body'', JStr [])] \<noteq> JNull \<and>
   notifications (snd (push_listener
       (Some (Parsed (JObj [(''title'', JStr ''Exam dates''), (''body'', JStr [])])))
       previous_generation)) =
     [\<lparr>ntf_title = JStr ''Exam dates'', ntf_body = JStr ''New resources are available!'',
       ntf_icon = JStr ''/assets/icons/icon-192.png'',
       ntf_badge = JStr ''/assets/icons/icon-192.png''\<rparr>] \<and>
   notifications (snd (push_listener None previous_generation)) = [default_options]"
proof -
  let ?j = "JObj [(''title'', JStr ''Exam dates''), (''body'', JStr [])]"
  have n: "notifications previous_generation = []"
    by (simp add: previous_generation_def)
  from push_notification [of "Some (Parsed ?j)" previous_generation]
  have 1: "notifications (snd (push_listener (Some (Parsed ?j)) previous_generation)) =
      notifications previous_generation @
        [\<lparr>ntf_title = js_or (property_value ?j ''title'') default_title,
          ntf_body = js_or (property_value ?j ''body'') (JStr ''New resources are available!''),
          ntf_icon = js_or (property_value ?j ''icon'') (JStr ''/assets/icons/icon-192.png''),
          ntf_badge = JStr ''/assets/icons/icon-192.png''\<rparr>]"
    by blast
  from push_notification [of None previous_generation]
  have 2: "notifications (snd (push_listener None previous_generation)) =
      notifications previous_generation @ [default_options]"
    by blast
  from 1 2 n show ?thesis by (simp add: js_or_def)
qed


lemma respond_with_accept:
  assumes "req_accept r = Some accept"
  shows "fst (respond net loc r s) \<noteq> Inl e"
proof (cases "match_all (request_key r) (caches s)")
  case (Some c)
  then show ?thesis by (simp add: respond_hit)
next
  case None
  show ?thesis
  proof (cases "net r")
    case (Inl e')
    with None assms show ?thesis by (simp add: respond_offline)
  next
    case (Inr resp)
    with None show ?thesis
      by (cases "resp_status resp = 200 \<and> resp_type resp = ''basic''")
         (simp_all add: respond_store respond_pass del: de_Morgan_conj)
  qed
qed






end
